theory Spec2Isabelle
  imports Complex_Main "HOL-Library.Multiset"
begin

section \<open>Numbers of the dashboard\<close>

text \<open>
  The dashboard (\<^verbatim>\<open>BM_Validation1.py\<close>) computes with Python and numpy double precision
  numbers. A number is modelled as a finite value, the negative zero, one of the two
  infinities, or the not-a-number value; \<open>Fin 0\<close> is the positive zero. The special values
  and the sign of zero follow IEEE 754. Arithmetic on finite values is exact (a
  \<^typ>\<open>real\<close>): rounding, overflow and underflow are not part of the model. The general
  properties below do not depend on a computed finite value; the concrete examples use
  inputs on which the double precision computation is itself exact.
\<close>

datatype fl = Fin real | NegZero | PInf | NInf | NaN

fun is_zero :: "fl \<Rightarrow> bool" where
  "is_zero (Fin a) = (a = 0)"
| "is_zero NegZero = True"
| "is_zero _ = False"

fun is_infinite :: "fl \<Rightarrow> bool" where
  "is_infinite PInf = True"
| "is_infinite NInf = True"
| "is_infinite _ = False"

text \<open>The sign bit of a number other than not-a-number.\<close>

fun negative :: "fl \<Rightarrow> bool" where
  "negative (Fin a) = (a < 0)"
| "negative NegZero = True"
| "negative NInf = True"
| "negative _ = False"

fun fl_val :: "fl \<Rightarrow> real" where
  "fl_val (Fin a) = a"
| "fl_val _ = 0"

text \<open>The zero and the infinity of a given sign.\<close>

definition zero_of :: "bool \<Rightarrow> fl" where
  "zero_of neg = (if neg then NegZero else Fin 0)"

definition inf_of :: "bool \<Rightarrow> fl" where
  "inf_of positive = (if positive then PInf else NInf)"

fun fl_neg :: "fl \<Rightarrow> fl" where
  "fl_neg (Fin a) = (if a = 0 then NegZero else Fin (- a))"
| "fl_neg NegZero = Fin 0"
| "fl_neg PInf = NInf"
| "fl_neg NInf = PInf"
| "fl_neg NaN = NaN"

text \<open>
  A sum that is exactly zero is the positive zero, unless both terms are the negative
  zero.
\<close>

fun fl_add :: "fl \<Rightarrow> fl \<Rightarrow> fl" where
  "fl_add NaN _ = NaN"
| "fl_add _ NaN = NaN"
| "fl_add (Fin a) (Fin b) = Fin (a + b)"
| "fl_add NegZero NegZero = NegZero"
| "fl_add NegZero (Fin b) = Fin b"
| "fl_add (Fin a) NegZero = Fin a"
| "fl_add PInf NInf = NaN"
| "fl_add NInf PInf = NaN"
| "fl_add PInf _ = PInf"
| "fl_add _ PInf = PInf"
| "fl_add NInf _ = NInf"
| "fl_add _ NInf = NInf"

definition fl_sub :: "fl \<Rightarrow> fl \<Rightarrow> fl" where
  "fl_sub a b = fl_add a (fl_neg b)"

text \<open>
  Product and quotient: the sign of the result is the product of the signs of the
  operands; zero times infinity, zero over zero and infinity over infinity are
  not-a-number.
\<close>

definition fl_mul :: "fl \<Rightarrow> fl \<Rightarrow> fl" where
  "fl_mul x y =
     (if x = NaN \<or> y = NaN then NaN
      else if (is_zero x \<and> is_infinite y) \<or> (is_infinite x \<and> is_zero y) then NaN
      else if is_zero x \<or> is_zero y then zero_of (negative x \<noteq> negative y)
      else if is_infinite x \<or> is_infinite y then inf_of (negative x = negative y)
      else Fin (fl_val x * fl_val y))"

text \<open>
  Division as numpy does it on its scalars: dividing by a zero does not raise, it gives
  an infinity whose sign is the product of the signs of the two operands, or
  not-a-number for zero over zero.
\<close>

definition fl_div :: "fl \<Rightarrow> fl \<Rightarrow> fl" where
  "fl_div x y =
     (if x = NaN \<or> y = NaN then NaN
      else if (is_zero x \<and> is_zero y) \<or> (is_infinite x \<and> is_infinite y) then NaN
      else if is_zero y \<or> is_infinite x then inf_of (negative x = negative y)
      else if is_zero x \<or> is_infinite y then zero_of (negative x \<noteq> negative y)
      else Fin (fl_val x / fl_val y))"

fun fl_sqrt :: "fl \<Rightarrow> fl" where
  "fl_sqrt (Fin a) = (if a < 0 then NaN else Fin (sqrt a))"
| "fl_sqrt NegZero = NegZero"
| "fl_sqrt PInf = PInf"
| "fl_sqrt NInf = NaN"
| "fl_sqrt NaN = NaN"

text \<open>
  Comparisons: every comparison with not-a-number is false, and the two zeros compare
  equal.
\<close>

fun fl_less :: "fl \<Rightarrow> fl \<Rightarrow> bool" where
  "fl_less NaN _ = False"
| "fl_less _ NaN = False"
| "fl_less (Fin a) (Fin b) = (a < b)"
| "fl_less NegZero (Fin b) = (0 < b)"
| "fl_less (Fin a) NegZero = (a < 0)"
| "fl_less NegZero NegZero = False"
| "fl_less _ NInf = False"
| "fl_less PInf _ = False"
| "fl_less NInf _ = True"
| "fl_less _ PInf = True"


definition fl_greater :: "fl \<Rightarrow> fl \<Rightarrow> bool" where
  "fl_greater a b = fl_less b a"

section \<open>Classification of a difference\<close>

text \<open>
  \<^verbatim>\<open>
  def get_diff_class(diff):
      if diff > 0: return "positive"
      elif diff < 0: return "negative"
      else: return "neutral"
  \<close>
\<close>

definition get_diff_class :: "fl \<Rightarrow> string" where
  "get_diff_class diff =
     (if fl_greater diff (Fin 0) then ''positive''
      else if fl_less diff (Fin 0) then ''negative''
      else ''neutral'')"

section \<open>Strings and the column guesses\<close>

text \<open>
  A Python string is a list of characters. A \<^typ>\<open>char\<close> stands for a code point below
  256 (ASCII and Latin-1, which covers every literal of the program); \<open>str.lower\<close> maps
  \<open>A\<close>..\<open>Z\<close> and the Latin-1 capitals (all of 192..222 but the multiplication sign 215)
  to the letter 32 places further.
\<close>

definition lower_char :: "char \<Rightarrow> char" where
  "lower_char c =
     (let n = (of_char c :: nat)
      in if (65 \<le> n \<and> n \<le> 90) \<or> (192 \<le> n \<and> n \<le> 222 \<and> n \<noteq> 215)
         then char_of (n + 32) else c)"

definition lower :: "string \<Rightarrow> string" where
  "lower s = map lower_char s"

text \<open>\<open>sub in s\<close>: the string \<open>sub\<close> occurs in \<open>s\<close> as a contiguous run.\<close>

definition starts_with :: "string \<Rightarrow> string \<Rightarrow> bool" where
  "starts_with s sub = (take (length sub) s = sub)"

fun contains :: "string \<Rightarrow> string \<Rightarrow> bool" where
  "contains sub [] = (sub = [])"
| "contains sub (c # cs) = (starts_with (c # cs) sub \<or> contains sub cs)"

datatype error = IndexError | ZeroDivisionError

text \<open>
  \<^verbatim>\<open>next((col for col in columns if <test>), columns[0])\<close>: the default \<open>columns[0]\<close> is
  evaluated before \<open>next\<close> runs, so an empty list raises \<open>IndexError\<close>. Otherwise the
  first column that passes the test is returned, or the default when none does.
\<close>

definition next_or_first :: "(string \<Rightarrow> bool) \<Rightarrow> string list \<Rightarrow> error + string" where
  "next_or_first test cols =
     (case cols of
        [] \<Rightarrow> Inl IndexError
      | c0 # _ \<Rightarrow> Inr (case find test cols of Some col \<Rightarrow> col | None \<Rightarrow> c0))"

definition x_test :: "string \<Rightarrow> bool" where
  "x_test col = (contains ''x'' (lower col) \<or> contains ''east'' (lower col))"

definition y_test :: "string \<Rightarrow> bool" where
  "y_test col = (contains ''y'' (lower col) \<or> contains ''north'' (lower col))"

definition z_test :: "string \<Rightarrow> bool" where
  "z_test col = (contains ''z'' (lower col) \<or> contains ''elev'' (lower col))"

definition grade_test :: "string \<Rightarrow> bool" where
  "grade_test col =
     (contains ''grade'' (lower col) \<or> contains ''teneur'' (lower col)
      \<or> contains ''au'' (lower col) \<or> contains ''cu'' (lower col))"

text \<open>
  The four guesses for the composites, from \<open>st.session_state.composite_columns\<close>; the
  block model's guesses (\<open>block_x_col\<close> and so on) are the same expressions over
  \<open>block_columns\<close>.
\<close>

definition composite_x_col :: "string list \<Rightarrow> error + string" where
  "composite_x_col composite_columns = next_or_first x_test composite_columns"

definition composite_y_col :: "string list \<Rightarrow> error + string" where
  "composite_y_col composite_columns = next_or_first y_test composite_columns"

definition composite_z_col :: "string list \<Rightarrow> error + string" where
  "composite_z_col composite_columns = next_or_first z_test composite_columns"

definition composite_grade_col :: "string list \<Rightarrow> error + string" where
  "composite_grade_col composite_columns = next_or_first grade_test composite_columns"

definition block_x_col :: "string list \<Rightarrow> error + string" where
  "block_x_col block_columns = next_or_first x_test block_columns"

definition block_y_col :: "string list \<Rightarrow> error + string" where
  "block_y_col block_columns = next_or_first y_test block_columns"

definition block_z_col :: "string list \<Rightarrow> error + string" where
  "block_z_col block_columns = next_or_first z_test block_columns"

definition block_grade_col :: "string list \<Rightarrow> error + string" where
  "block_grade_col block_columns = next_or_first grade_test block_columns"

section \<open>Data frames and series\<close>

text \<open>
  A data frame has its column names, in order, and its rows, in order; a row gives the
  cell of each column name (only the names in \<open>columns\<close> matter). A cell is a number
  (a missing value is the number not-a-number) or a text.
\<close>

datatype cell = Num fl | Str string

record dataframe =
  columns :: "string list"
  rows :: "(string \<Rightarrow> cell) list"

definition len :: "dataframe \<Rightarrow> nat" where
  "len df = length (rows df)"

text \<open>\<open>df[c]\<close> read, and \<open>df[c] = series\<close> for a series of the frame's length.\<close>

definition get_column :: "dataframe \<Rightarrow> string \<Rightarrow> cell list" where
  "get_column df c = map (\<lambda>r. r c) (rows df)"

definition set_column :: "dataframe \<Rightarrow> string \<Rightarrow> cell list \<Rightarrow> dataframe" where
  "set_column df c series =
     df\<lparr>columns := (if c \<in> set (columns df) then columns df else columns df @ [c]),
        rows := map (\<lambda>(r, v). r(c := v)) (zip (rows df) series)\<rparr>"

text \<open>
  \<open>pd.to_numeric(series, errors='coerce')\<close>: a number stays, a text becomes the number it
  spells and not-a-number when it spells none. How pandas reads a text is a parameter,
  \<open>parse\<close>.
\<close>

definition coerce :: "(string \<Rightarrow> fl option) \<Rightarrow> cell \<Rightarrow> fl" where
  "coerce parse c =
     (case c of
        Num v \<Rightarrow> v
      | Str s \<Rightarrow> (case parse s of Some v \<Rightarrow> v | None \<Rightarrow> NaN))"

definition to_numeric :: "(string \<Rightarrow> fl option) \<Rightarrow> cell list \<Rightarrow> fl list" where
  "to_numeric parse series = map (coerce parse) series"

text \<open>
  The reductions of a numeric series skip the missing values (\<open>skipna=True\<close>), the way
  pandas computes them. The sum is taken over the series with the missing values
  replaced by zero, starting from the negative zero, as numpy does, so that a sum of
  negative zeros keeps its sign. The mean is that sum over the count of the values that
  are not missing, and not-a-number when there is none. The minimum and maximum are taken
  over the values that are not missing and are not-a-number when there is none. The
  standard deviation divides by the count less one (\<open>ddof=1\<close>) and is not-a-number when
  the count is at most one.
\<close>

definition dropna :: "fl list \<Rightarrow> fl list" where
  "dropna vs = filter (\<lambda>v. v \<noteq> NaN) vs"

definition fillna0 :: "fl list \<Rightarrow> fl list" where
  "fillna0 vs = map (\<lambda>v. if v = NaN then Fin 0 else v) vs"

primrec fl_sum :: "fl list \<Rightarrow> fl" where
  "fl_sum [] = NegZero"
| "fl_sum (v # vs) = fl_add v (fl_sum vs)"

definition fl_min2 :: "fl \<Rightarrow> fl \<Rightarrow> fl" where
  "fl_min2 a b = (if fl_less b a then b else a)"

definition fl_max2 :: "fl \<Rightarrow> fl \<Rightarrow> fl" where
  "fl_max2 a b = (if fl_less a b then b else a)"

definition series_mean :: "fl list \<Rightarrow> fl" where
  "series_mean vs =
     (let n = length (dropna vs)
      in if n = 0 then NaN else fl_div (fl_sum (fillna0 vs)) (Fin (real n)))"

definition series_min :: "fl list \<Rightarrow> fl" where
  "series_min vs = (case dropna vs of [] \<Rightarrow> NaN | x # xs \<Rightarrow> foldl fl_min2 x xs)"

definition series_max :: "fl list \<Rightarrow> fl" where
  "series_max vs = (case dropna vs of [] \<Rightarrow> NaN | x # xs \<Rightarrow> foldl fl_max2 x xs)"

definition fl_square :: "fl \<Rightarrow> fl" where
  "fl_square d = fl_mul d d"

definition series_std :: "fl list \<Rightarrow> fl" where
  "series_std vs =
     (let n = length (dropna vs)
      in if n \<le> 1 then NaN
         else let avg = fl_div (fl_sum (fillna0 vs)) (Fin (real n));
                  sqr = map (\<lambda>v. if v = NaN then Fin 0 else fl_square (fl_sub avg v)) vs
              in fl_sqrt (fl_div (fl_sum sqr) (Fin (real (n - 1)))))"

section \<open>The statistics of a model\<close>

record stats =
  volume :: fl
  tonnage :: fl
  densite :: fl
  teneur_moyenne :: fl
  teneur_min :: fl
  teneur_max :: fl
  ecart_type :: fl
  metal_contenu :: fl
  recuperation :: fl
  metal_recuperable :: fl

text \<open>
  \<^verbatim>\<open>
  def calculate_statistics(df, grade_column):
      if df is None or grade_column not in df.columns:
          return None
      df[grade_column] = pd.to_numeric(df[grade_column], errors='coerce')
      stats = {
          "volume": 1_250_000 if "composite" in grade_column else 1_275_000,
          "tonnage": 3_375_000 if "composite" in grade_column else 3_442_500,
          "densite": 2.7,
          "teneur_moyenne": df[grade_column].mean(),
          "teneur_min": df[grade_column].min(),
          "teneur_max": df[grade_column].max(),
          "ecart_type": df[grade_column].std(),
          "metal_contenu": 3_375_000 * df[grade_column].mean() / 1000
              if "composite" in grade_column else 3_442_500 * df[grade_column].mean() / 1000,
          "recuperation": 92.5 if "composite" in grade_column else 91.0,
      }
      stats["metal_recuperable"] = stats["metal_contenu"] * stats["recuperation"] / 100
      return stats
  \<close>
  The function writes the coerced column into the caller's frame, so the model returns
  the frame after the call next to the result; \<open>None\<close> is the Python \<open>None\<close>.
\<close>

definition calculate_statistics ::
  "(string \<Rightarrow> fl option) \<Rightarrow> dataframe option \<Rightarrow> string \<Rightarrow> stats option \<times> dataframe option"
where
  "calculate_statistics parse df grade_column =
     (case df of
        None \<Rightarrow> (None, None)
      | Some d \<Rightarrow>
          if grade_column \<notin> set (columns d) then (None, Some d)
          else
            let series = to_numeric parse (get_column d grade_column);
                d' = set_column d grade_column (map Num series);
                composite = contains ''composite'' grade_column;
                contenu =
                  (if composite
                   then fl_div (fl_mul (Fin 3375000) (series_mean series)) (Fin 1000)
                   else fl_div (fl_mul (Fin 3442500) (series_mean series)) (Fin 1000));
                recup = (if composite then Fin 92.5 else Fin 91.0)
            in (Some \<lparr>volume = (if composite then Fin 1250000 else Fin 1275000),
                      tonnage = (if composite then Fin 3375000 else Fin 3442500),
                      densite = Fin 2.7,
                      teneur_moyenne = series_mean series,
                      teneur_min = series_min series,
                      teneur_max = series_max series,
                      ecart_type = series_std series,
                      metal_contenu = contenu,
                      recuperation = recup,
                      metal_recuperable = fl_div (fl_mul contenu recup) (Fin 100)\<rparr>,
                Some d'))"

section \<open>Differences between the two models\<close>

text \<open>
  \<^verbatim>\<open>vol_diff = (block_stats['volume'] / composite_stats['volume'] - 1) * 100\<close>
  and nine more of the same shape. The mean, minimum, maximum, standard deviation and
  the two metal quantities of a record are numpy scalars, whose division never raises.
  Volume, tonnage, density and recovery are plain Python numbers: their division raises
  \<open>ZeroDivisionError\<close> when the divisor is a zero of either sign.
\<close>

definition pct_diff :: "fl \<Rightarrow> fl \<Rightarrow> fl" where
  "pct_diff b c = fl_mul (fl_sub (fl_div b c) (Fin 1)) (Fin 100)"

definition py_pct_diff :: "fl \<Rightarrow> fl \<Rightarrow> error + fl" where
  "py_pct_diff b c = (if is_zero c then Inl ZeroDivisionError else Inr (pct_diff b c))"

record diffs =
  vol_diff :: fl
  ton_diff :: fl
  den_diff :: fl
  teneur_diff :: fl
  min_diff :: fl
  max_diff :: fl
  std_diff :: fl
  metal_diff :: fl
  recup_diff :: fl
  metal_rec_diff :: fl

definition differences :: "stats \<Rightarrow> stats \<Rightarrow> error + diffs" where
  "differences composite_stats block_stats =
     (case py_pct_diff (volume block_stats) (volume composite_stats) of
        Inl e \<Rightarrow> Inl e
      | Inr vol \<Rightarrow>
     (case py_pct_diff (tonnage block_stats) (tonnage composite_stats) of
        Inl e \<Rightarrow> Inl e
      | Inr ton \<Rightarrow>
     (case py_pct_diff (densite block_stats) (densite composite_stats) of
        Inl e \<Rightarrow> Inl e
      | Inr den \<Rightarrow>
     (case py_pct_diff (recuperation block_stats) (recuperation composite_stats) of
        Inl e \<Rightarrow> Inl e
      | Inr recup \<Rightarrow>
          Inr \<lparr>vol_diff = vol,
               ton_diff = ton,
               den_diff = den,
               teneur_diff =
                 pct_diff (teneur_moyenne block_stats) (teneur_moyenne composite_stats),
               min_diff = pct_diff (teneur_min block_stats) (teneur_min composite_stats),
               max_diff = pct_diff (teneur_max block_stats) (teneur_max composite_stats),
               std_diff = pct_diff (ecart_type block_stats) (ecart_type composite_stats),
               metal_diff =
                 pct_diff (metal_contenu block_stats) (metal_contenu composite_stats),
               recup_diff = recup,
               metal_rec_diff =
                 pct_diff (metal_recuperable block_stats)
                   (metal_recuperable composite_stats)\<rparr>))))"

section \<open>The comparison report\<close>

text \<open>
  The report is written into a text buffer, one \<open>write\<close> per line. The two number
  formats of the f-strings, \<open>:.1f\<close> and \<open>:.2f\<close>, are the parameters \<open>f1\<close> and \<open>f2\<close>.
  The accented letters of the labels are the Latin-1 code points 201 (capital E acute),
  232 (e grave) and 233 (e acute); 179 is the superscript three.
\<close>

definition newline :: char where
  "newline = CHR 0x0A"

definition header_line :: string where
  "header_line =
     ''M'' @ [CHR 0xE9] @ ''trique,Composite 3D,Bloc Mod'' @ [CHR 0xE8] @ ''le,Diff''
       @ [CHR 0xE9] @ ''rence (%)''"

definition metric_labels :: "string list" where
  "metric_labels =
     [''Volume total (m'' @ [CHR 0xB3] @ '')'',
      ''Tonnage estim'' @ [CHR 0xE9] @ '' (tonnes)'',
      ''Densit'' @ [CHR 0xE9] @ '' moyenne (t/m'' @ [CHR 0xB3] @ '')'',
      ''Teneur moyenne (g/t)'',
      ''Teneur minimum (g/t)'',
      ''Teneur maximum (g/t)'',
      [CHR 0xC9] @ ''cart-type (g/t)'',
      ''M'' @ [CHR 0xE9] @ ''tal contenu (kg)'',
      ''R'' @ [CHR 0xE9] @ ''cup'' @ [CHR 0xE9] @ ''ration estim'' @ [CHR 0xE9] @ ''e (%)'',
      ''M'' @ [CHR 0xE9] @ ''tal r'' @ [CHR 0xE9] @ ''cup'' @ [CHR 0xE9] @ ''rable (kg)'']"

definition csv_row :: "string \<Rightarrow> string \<Rightarrow> string \<Rightarrow> string \<Rightarrow> string" where
  "csv_row label a b d = label @ '','' @ a @ '','' @ b @ '','' @ d"

definition metric_rows ::
  "(fl \<Rightarrow> string) \<Rightarrow> (fl \<Rightarrow> string) \<Rightarrow> stats \<Rightarrow> stats \<Rightarrow> diffs \<Rightarrow> string list"
where
  "metric_rows f1 f2 c b ds =
     [csv_row (metric_labels ! 0) (f1 (volume c)) (f1 (volume b)) (f1 (vol_diff ds)),
      csv_row (metric_labels ! 1) (f1 (tonnage c)) (f1 (tonnage b)) (f1 (ton_diff ds)),
      csv_row (metric_labels ! 2) (f2 (densite c)) (f2 (densite b)) (f1 (den_diff ds)),
      csv_row (metric_labels ! 3) (f2 (teneur_moyenne c)) (f2 (teneur_moyenne b))
        (f1 (teneur_diff ds)),
      csv_row (metric_labels ! 4) (f2 (teneur_min c)) (f2 (teneur_min b)) (f1 (min_diff ds)),
      csv_row (metric_labels ! 5) (f2 (teneur_max c)) (f2 (teneur_max b)) (f1 (max_diff ds)),
      csv_row (metric_labels ! 6) (f2 (ecart_type c)) (f2 (ecart_type b)) (f1 (std_diff ds)),
      csv_row (metric_labels ! 7) (f1 (metal_contenu c)) (f1 (metal_contenu b))
        (f1 (metal_diff ds)),
      csv_row (metric_labels ! 8) (f1 (recuperation c)) (f1 (recuperation b))
        (f1 (recup_diff ds)),
      csv_row (metric_labels ! 9) (f1 (metal_recuperable c)) (f1 (metal_recuperable b))
        (f1 (metal_rec_diff ds))]"

definition csv_buffer ::
  "(fl \<Rightarrow> string) \<Rightarrow> (fl \<Rightarrow> string) \<Rightarrow> stats \<Rightarrow> stats \<Rightarrow> diffs \<Rightarrow> string"
where
  "csv_buffer f1 f2 c b ds =
     concat (map (\<lambda>line. line @ [newline]) (header_line # metric_rows f1 f2 c b ds))"

text \<open>
  The comparison page computes the differences and then, on request, writes the report
  from them; an error raised by a difference ends the run before any report.
\<close>

definition comparison_report ::
  "(fl \<Rightarrow> string) \<Rightarrow> (fl \<Rightarrow> string) \<Rightarrow> stats \<Rightarrow> stats \<Rightarrow> error + string"
where
  "comparison_report f1 f2 composite_stats block_stats =
     (case differences composite_stats block_stats of
        Inl e \<Rightarrow> Inl e
      | Inr ds \<Rightarrow> Inr (csv_buffer f1 f2 composite_stats block_stats ds))"

text \<open>The lines of a text, each ended by a newline (the last one possibly not).\<close>

function splitlines :: "string \<Rightarrow> string list" where
  "splitlines [] = []"
| "splitlines (c # cs) =
     takeWhile (\<lambda>x. x \<noteq> newline) (c # cs)
       # splitlines (drop 1 (dropWhile (\<lambda>x. x \<noteq> newline) (c # cs)))"
  by pat_completeness auto
termination
proof (relation "measure length")
  fix c :: char and cs :: string
  have "length (dropWhile (\<lambda>x. x \<noteq> newline) (c # cs)) \<le> length (c # cs)"
    by (rule length_dropWhile_le)
  moreover have "dropWhile (\<lambda>x. x \<noteq> newline) (c # cs) \<noteq> []
      \<Longrightarrow> length (drop 1 (dropWhile (\<lambda>x. x \<noteq> newline) (c # cs)))
          < length (dropWhile (\<lambda>x. x \<noteq> newline) (c # cs))"
    by (cases "dropWhile (\<lambda>x. x \<noteq> newline) (c # cs)") simp_all
  ultimately show
    "(drop 1 (dropWhile (\<lambda>x. x \<noteq> newline) (c # cs)), c # cs) \<in> measure length"
    by (cases "dropWhile (\<lambda>x. x \<noteq> newline) (c # cs) = []") auto
qed simp

text \<open>The label of a row: its text before the first comma.\<close>

definition label_of :: "string \<Rightarrow> string" where
  "label_of row = takeWhile (\<lambda>x. x \<noteq> CHR '','') row"

section \<open>Sampling for the 3D view\<close>

text \<open>
  \<open>df.sample(n)\<close> draws \<open>n\<close> rows without replacement: pandas takes the first \<open>n\<close> entries
  of a random permutation of the row positions, which numpy makes by shuffling
  \<open>0 .. len-1\<close> from the last position down, exchanging position \<open>i\<close> with a random
  position \<open>j \<le> i\<close>. The random source is the parameter \<open>rnd\<close>: \<open>rnd i\<close> is the number
  drawn at step \<open>i\<close>, reduced to the range \<open>0 .. i\<close>.
\<close>

fun shuffle :: "(nat \<Rightarrow> nat) \<Rightarrow> nat \<Rightarrow> 'a list \<Rightarrow> 'a list" where
  "shuffle rnd 0 xs = xs"
| "shuffle rnd (Suc i) xs =
     (let j = rnd (Suc i) mod (Suc (Suc i))
      in shuffle rnd i (xs[Suc i := xs ! j, j := xs ! Suc i]))"

definition permutation :: "(nat \<Rightarrow> nat) \<Rightarrow> nat \<Rightarrow> nat list" where
  "permutation rnd n = shuffle rnd (n - 1) [0..<n]"

definition sample_positions :: "(nat \<Rightarrow> nat) \<Rightarrow> nat \<Rightarrow> nat \<Rightarrow> nat list" where
  "sample_positions rnd n k = take k (permutation rnd n)"

definition sample :: "(nat \<Rightarrow> nat) \<Rightarrow> dataframe \<Rightarrow> nat \<Rightarrow> dataframe" where
  "sample rnd df n =
     df\<lparr>rows := map (\<lambda>i. rows df ! i) (sample_positions rnd (len df) n)\<rparr>"

text \<open>
  \<^verbatim>\<open>
  sample_size = min(5000, len(df))
  df_sample = df.sample(sample_size) if len(df) > sample_size else df
  \<close>
  in \<open>create_3d_scatter\<close>. \<open>df_sample_max\<close> is the step with the bound as a parameter;
  the program's bound is 5000.
\<close>

definition df_sample_max :: "nat \<Rightarrow> (nat \<Rightarrow> nat) \<Rightarrow> dataframe \<Rightarrow> dataframe" where
  "df_sample_max max_points rnd df =
     (let sample_size = min max_points (len df)
      in if len df > sample_size then sample rnd df sample_size else df)"

definition df_sample :: "(nat \<Rightarrow> nat) \<Rightarrow> dataframe \<Rightarrow> dataframe" where
  "df_sample rnd df = df_sample_max 5000 rnd df"

section \<open>The specification's wording of the column guess\<close>

text \<open>
  The specification's Column Mapper: a name has a keyword when its lowercased form
  contains one of the role's keywords; the mapper returns the first column, in list
  order, that has one, and the first column of the list when none has.
\<close>

definition spec_has_keyword :: "string list \<Rightarrow> string \<Rightarrow> bool" where
  "spec_has_keyword keywords col = (\<exists>k \<in> set keywords. \<exists>p q. lower col = p @ k @ q)"

definition spec_mapper_choice :: "string list \<Rightarrow> string list \<Rightarrow> string \<Rightarrow> bool" where
  "spec_mapper_choice keywords cols c =
     ((\<exists>i < length cols. c = cols ! i \<and> spec_has_keyword keywords (cols ! i)
          \<and> (\<forall>j < i. \<not> spec_has_keyword keywords (cols ! j)))
      \<or> ((\<forall>col \<in> set cols. \<not> spec_has_keyword keywords col) \<and> c = cols ! 0))"

section \<open>Auxiliary facts\<close>

lemma zero_of_simps [simp]: "zero_of False = Fin 0" "zero_of True = NegZero"
  by (simp_all add: zero_of_def)

lemma inf_of_simps [simp]: "inf_of True = PInf" "inf_of False = NInf"
  by (simp_all add: inf_of_def)

lemma fl_mul_Fin [simp]:
  "fl_mul (Fin a) (Fin b) =
     (if a = 0 \<or> b = 0 then zero_of ((a < 0) \<noteq> (b < 0)) else Fin (a * b))"
  by (simp add: fl_mul_def)

lemma fl_div_Fin [simp]:
  "fl_div (Fin a) (Fin b) =
     (if b = 0 then (if a = 0 then NaN else inf_of (0 < a))
      else if a = 0 then zero_of (b < 0) else Fin (a / b))"
  by (auto simp: fl_div_def inf_of_def)

lemma fl_nan [simp]:
  "fl_mul NaN y = NaN" "fl_mul x NaN = NaN" "fl_div NaN y = NaN" "fl_div x NaN = NaN"
  by (simp_all add: fl_mul_def fl_div_def)






lemma contains_iff: "contains sub s = (\<exists>p q. s = p @ sub @ q)"
proof (induction s)
  case Nil
  then show ?case by auto
next
  case (Cons c cs)
  have "starts_with (c # cs) sub = (\<exists>q. c # cs = sub @ q)"
    unfolding starts_with_def
    by (metis append_eq_conv_conj append_take_drop_id)
  moreover have "(\<exists>p q. c # cs = p @ sub @ q) = ((\<exists>q. c # cs = sub @ q) \<or> (\<exists>p q. cs = p @ sub @ q))"
  proof
    assume "\<exists>p q. c # cs = p @ sub @ q"
    then obtain p q where pq: "c # cs = p @ sub @ q" by blast
    show "(\<exists>q. c # cs = sub @ q) \<or> (\<exists>p q. cs = p @ sub @ q)"
    proof (cases p)
      case Nil
      with pq show ?thesis by auto
    next
      case (Cons a p')
      with pq have "cs = p' @ sub @ q" by simp
      then show ?thesis by blast
    qed
  next
    assume "(\<exists>q. c # cs = sub @ q) \<or> (\<exists>p q. cs = p @ sub @ q)"
    then show "\<exists>p q. c # cs = p @ sub @ q"
    proof
      assume "\<exists>q. c # cs = sub @ q"
      then obtain q where "c # cs = [] @ sub @ q" by auto
      then show ?thesis by blast
    next
      assume "\<exists>p q. cs = p @ sub @ q"
      then obtain p q where "cs = p @ sub @ q" by blast
      then have "c # cs = (c # p) @ sub @ q" by simp
      then show ?thesis by blast
    qed
  qed
  ultimately show ?case using Cons.IH by simp
qed

lemma get_column_set_column:
  "length series = length (rows d) \<Longrightarrow>
   get_column (set_column d c series) c' = (if c' = c then series else get_column d c')"
  by (auto simp: get_column_def set_column_def intro!: nth_equalityI)

lemma calculate_statistics_present:
  assumes "grade_column \<in> set (columns d)"
  shows "\<exists>s. calculate_statistics parse (Some d) grade_column =
           (Some s, Some (set_column d grade_column
                      (map Num (to_numeric parse (get_column d grade_column)))))
         \<and> volume s = (if contains ''composite'' grade_column then Fin 1250000 else Fin 1275000)
         \<and> tonnage s = (if contains ''composite'' grade_column then Fin 3375000 else Fin 3442500)
         \<and> densite s = Fin 2.7
         \<and> recuperation s = (if contains ''composite'' grade_column then Fin 92.5 else Fin 91.0)
         \<and> teneur_moyenne s = series_mean (to_numeric parse (get_column d grade_column))
         \<and> teneur_min s = series_min (to_numeric parse (get_column d grade_column))
         \<and> teneur_max s = series_max (to_numeric parse (get_column d grade_column))
         \<and> ecart_type s = series_std (to_numeric parse (get_column d grade_column))
         \<and> metal_contenu s = fl_div (fl_mul (tonnage s) (teneur_moyenne s)) (Fin 1000)
         \<and> metal_recuperable s = fl_div (fl_mul (metal_contenu s) (recuperation s)) (Fin 100)"
  using assms by (simp add: calculate_statistics_def Let_def)

lemma columns_set_column:
  "c \<in> set (columns d) \<Longrightarrow> columns (set_column d c series) = columns d"
  by (simp add: set_column_def)

lemma len_set_column:
  "length series = length (rows d) \<Longrightarrow> len (set_column d c series) = len d"
  by (simp add: set_column_def len_def)

lemma test_keywords:
  "x_test col = spec_has_keyword [''x'', ''east''] col"
  "y_test col = spec_has_keyword [''y'', ''north''] col"
  "z_test col = spec_has_keyword [''z'', ''elev''] col"
  "grade_test col = spec_has_keyword [''grade'', ''teneur'', ''au'', ''cu''] col"
  by (simp_all add: x_test_def y_test_def z_test_def grade_test_def spec_has_keyword_def
      contains_iff del: contains.simps)

lemma next_or_first_choice:
  assumes "cols \<noteq> []" and "\<And>col. test col = spec_has_keyword ks col"
  shows "\<exists>c. next_or_first test cols = Inr c \<and> spec_mapper_choice ks cols c"
proof (cases "find test cols")
  case None
  then have no: "\<forall>col \<in> set cols. \<not> spec_has_keyword ks col"
    using assms(2) by (simp add: find_None_iff)
  from assms(1) obtain c0 rest where cols: "cols = c0 # rest"
    by (cases cols) auto
  with None have "next_or_first test cols = Inr c0"
    by (simp add: next_or_first_def)
  moreover from cols have "c0 = cols ! 0" by simp
  ultimately show ?thesis
    using no unfolding spec_mapper_choice_def by blast
next
  case (Some c)
  then obtain i where i: "i < length cols" "test (cols ! i)" "c = cols ! i"
      "\<forall>j<i. \<not> test (cols ! j)"
    unfolding find_Some_iff by blast
  from assms(1) obtain c0 rest where cols: "cols = c0 # rest"
    by (cases cols) auto
  with Some have "next_or_first test cols = Inr c"
    by (simp add: next_or_first_def)
  moreover have "spec_mapper_choice ks cols c"
    unfolding spec_mapper_choice_def using i assms(2) by auto
  ultimately show ?thesis by blast
qed







lemma calculated_nonzero:
  assumes "fst (calculate_statistics parse df grade_column) = Some s"
  shows "\<not> is_zero (volume s) \<and> \<not> is_zero (tonnage s) \<and> \<not> is_zero (densite s)
         \<and> \<not> is_zero (recuperation s)"
proof (cases df)
  case None
  with assms show ?thesis by (simp add: calculate_statistics_def)
next
  case (Some d)
  show ?thesis
  proof (cases "grade_column \<in> set (columns d)")
    case False
    with Some assms show ?thesis by (simp add: calculate_statistics_def)
  next
    case True
    from calculate_statistics_present [OF True, of parse] Some assms
    show ?thesis by (auto split: if_splits)
  qed
qed

lemma differences_nonzero:
  assumes "\<not> is_zero (volume c)" "\<not> is_zero (tonnage c)" "\<not> is_zero (densite c)"
    "\<not> is_zero (recuperation c)"
  shows "differences c b =
     Inr \<lparr>vol_diff = pct_diff (volume b) (volume c),
          ton_diff = pct_diff (tonnage b) (tonnage c),
          den_diff = pct_diff (densite b) (densite c),
          teneur_diff = pct_diff (teneur_moyenne b) (teneur_moyenne c),
          min_diff = pct_diff (teneur_min b) (teneur_min c),
          max_diff = pct_diff (teneur_max b) (teneur_max c),
          std_diff = pct_diff (ecart_type b) (ecart_type c),
          metal_diff = pct_diff (metal_contenu b) (metal_contenu c),
          recup_diff = pct_diff (recuperation b) (recuperation c),
          metal_rec_diff = pct_diff (metal_recuperable b) (metal_recuperable c)\<rparr>"
  using assms by (simp add: differences_def py_pct_diff_def)

lemma pct_diff_nan: "pct_diff y NaN = NaN"
  by (simp add: pct_diff_def fl_div_def fl_sub_def)

lemma pct_diff_of_infinite:
  "is_infinite q \<Longrightarrow> fl_mul (fl_sub q (Fin 1)) (Fin 100) = q"
  by (cases q) (simp_all add: fl_sub_def fl_mul_def inf_of_def)

lemma pct_diff_zero:
  assumes "is_zero z"
  shows "if y = NaN \<or> is_zero y then pct_diff y z = NaN else is_infinite (pct_diff y z)"
proof (cases "y = NaN \<or> is_zero y")
  case True
  then have "fl_div y z = NaN" using assms by (auto simp: fl_div_def)
  then have "pct_diff y z = NaN" by (simp add: pct_diff_def fl_sub_def)
  with True show ?thesis by simp
next
  case False
  then have q: "fl_div y z = inf_of (negative y = negative z)"
    using assms by (cases z) (auto simp: fl_div_def)
  then have "is_infinite (fl_div y z)" by (simp add: inf_of_def)
  then have "pct_diff y z = fl_div y z"
    unfolding pct_diff_def by (rule pct_diff_of_infinite)
  with \<open>is_infinite (fl_div y z)\<close> False show ?thesis by simp
qed

lemma calculate_statistics_plain:
  assumes "grade_column \<in> set (columns d)" and "\<not> contains ''composite'' grade_column"
    and "to_numeric parse (get_column d grade_column) = vs"
  shows "fst (calculate_statistics parse (Some d) grade_column) =
     Some \<lparr>volume = Fin 1275000, tonnage = Fin 3442500, densite = Fin 2.7,
           teneur_moyenne = series_mean vs, teneur_min = series_min vs,
           teneur_max = series_max vs, ecart_type = series_std vs,
           metal_contenu = fl_div (fl_mul (Fin 3442500) (series_mean vs)) (Fin 1000),
           recuperation = Fin 91.0,
           metal_recuperable =
             fl_div (fl_mul (fl_div (fl_mul (Fin 3442500) (series_mean vs)) (Fin 1000))
               (Fin 91.0)) (Fin 100)\<rparr>"
  using assms by (simp add: calculate_statistics_def Let_def del: contains.simps)

lemma length_shuffle: "length (shuffle rnd i xs) = length xs"
  by (induction i arbitrary: xs) (simp_all add: Let_def)

lemma mset_shuffle: "i < length xs \<Longrightarrow> mset (shuffle rnd i xs) = mset xs"
proof (induction i arbitrary: xs)
  case 0
  then show ?case by simp
next
  case (Suc i)
  let ?j = "rnd (Suc i) mod (Suc (Suc i))"
  let ?ys = "xs[Suc i := xs ! ?j, ?j := xs ! Suc i]"
  have j: "?j < length xs"
  proof -
    have "?j < Suc (Suc i)" by simp
    with Suc.prems show ?thesis by linarith
  qed
  have "mset ?ys = mset xs"
    using j Suc.prems by (rule mset_swap)
  moreover have "i < length ?ys" using Suc.prems by simp
  then have "mset (shuffle rnd i ?ys) = mset ?ys" by (rule Suc.IH)
  ultimately show ?case by (simp add: Let_def)
qed

lemma mset_permutation: "mset (permutation rnd n) = mset [0..<n]"
proof (cases n)
  case 0
  then show ?thesis by (simp add: permutation_def)
next
  case (Suc m)
  then have "n - 1 < length [0..<n]" by simp
  then show ?thesis unfolding permutation_def by (rule mset_shuffle)
qed

lemma permutation_props:
  "length (permutation rnd n) = n" "distinct (permutation rnd n)"
  "set (permutation rnd n) = {..<n}"
proof -
  show "length (permutation rnd n) = n"
    by (simp add: permutation_def length_shuffle)
  have "distinct (permutation rnd n) = distinct [0..<n]"
    using mset_permutation by (rule mset_eq_imp_distinct_iff)
  then show "distinct (permutation rnd n)" by simp
  have "set (permutation rnd n) = set [0..<n]"
    using mset_permutation by (rule mset_eq_setD)
  then show "set (permutation rnd n) = {..<n}" by (simp add: lessThan_atLeast0)
qed

lemma sample_positions_props:
  assumes "k \<le> n"
  shows "length (sample_positions rnd n k) = k" "distinct (sample_positions rnd n k)"
    "set (sample_positions rnd n k) \<subseteq> {..<n}"
proof -
  show "length (sample_positions rnd n k) = k"
    using assms by (simp add: sample_positions_def permutation_props(1))
  show "distinct (sample_positions rnd n k)"
    by (simp add: sample_positions_def permutation_props(2))
  have "set (take k (permutation rnd n)) \<subseteq> set (permutation rnd n)"
    by (rule set_take_subset)
  then show "set (sample_positions rnd n k) \<subseteq> {..<n}"
    by (simp add: sample_positions_def permutation_props(3))
qed

lemma splitlines_line:
  assumes "newline \<notin> set l"
  shows "splitlines (l @ newline # rest) = l # splitlines rest"
proof -
  have all: "\<And>x. x \<in> set l \<Longrightarrow> x \<noteq> newline" using assms by auto
  have t: "takeWhile (\<lambda>x. x \<noteq> newline) (l @ newline # rest) = l"
    using all by (simp add: takeWhile_append2)
  have d: "dropWhile (\<lambda>x. x \<noteq> newline) (l @ newline # rest) = newline # rest"
    using all by (simp add: dropWhile_append2)
  obtain c cs where eq: "l @ newline # rest = c # cs"
    by (cases "l @ newline # rest") auto
  have "splitlines (c # cs) =
     takeWhile (\<lambda>x. x \<noteq> newline) (c # cs)
       # splitlines (drop 1 (dropWhile (\<lambda>x. x \<noteq> newline) (c # cs)))"
    by (rule splitlines.simps(2))
  then show ?thesis unfolding eq [symmetric] t d by simp
qed

lemma splitlines_concat:
  "(\<forall>l \<in> set ls. newline \<notin> set l) \<Longrightarrow>
   splitlines (concat (map (\<lambda>line. line @ [newline]) ls)) = ls"
proof (induction ls)
  case Nil
  then show ?case by simp
next
  case (Cons l ls)
  then have "newline \<notin> set l" by simp
  then have "splitlines (l @ newline # concat (map (\<lambda>line. line @ [newline]) ls))
      = l # splitlines (concat (map (\<lambda>line. line @ [newline]) ls))"
    by (rule splitlines_line)
  with Cons show ?case by simp
qed

lemma header_no_newline: "newline \<notin> set header_line"
  by (simp add: header_line_def newline_def)

lemma labels_all:
  "\<forall>l \<in> set metric_labels. newline \<notin> set l \<and> CHR '','' \<notin> set l"
  by (simp add: metric_labels_def newline_def)

lemma length_metric_labels: "length metric_labels = 10"
  by (simp add: metric_labels_def)

lemma labels_clean:
  assumes "i < 10"
  shows "newline \<notin> set (metric_labels ! i) \<and> CHR '','' \<notin> set (metric_labels ! i)"
proof -
  from assms have "metric_labels ! i \<in> set metric_labels"
    by (simp add: length_metric_labels)
  with labels_all show ?thesis by blast
qed

lemma labels_list:
  "[metric_labels ! 0, metric_labels ! 1, metric_labels ! 2, metric_labels ! 3,
    metric_labels ! 4, metric_labels ! 5, metric_labels ! 6, metric_labels ! 7,
    metric_labels ! 8, metric_labels ! 9] = metric_labels"
  by (simp add: metric_labels_def)

lemma csv_row_no_newline:
  assumes "newline \<notin> set l" "newline \<notin> set a" "newline \<notin> set b" "newline \<notin> set d"
  shows "newline \<notin> set (csv_row l a b d)"
  using assms by (simp add: csv_row_def newline_def)

lemma label_of_csv_row:
  assumes "CHR '','' \<notin> set l"
  shows "label_of (csv_row l a b d) = l"
proof -
  have "\<And>x. x \<in> set l \<Longrightarrow> x \<noteq> CHR '',''" using assms by auto
  then have "takeWhile (\<lambda>x. x \<noteq> CHR '','') (l @ CHR '','' # a @ '','' @ b @ '','' @ d) = l"
    by (simp add: takeWhile_append2)
  then show ?thesis by (simp add: label_of_def csv_row_def)
qed

lemma metric_rows_props:
  assumes "\<And>v. newline \<notin> set (f1 v)" and "\<And>v. newline \<notin> set (f2 v)"
  shows "length (metric_rows f1 f2 c b ds) = 10"
    and "\<forall>r \<in> set (metric_rows f1 f2 c b ds). newline \<notin> set r"
    and "map label_of (metric_rows f1 f2 c b ds) = metric_labels"
proof -
  show "length (metric_rows f1 f2 c b ds) = 10"
    by (simp add: metric_rows_def)
  have l: "\<And>i. i < 10 \<Longrightarrow> newline \<notin> set (metric_labels ! i)"
    using labels_clean by blast
  show "\<forall>r \<in> set (metric_rows f1 f2 c b ds). newline \<notin> set r"
    unfolding metric_rows_def
    by (simp add: csv_row_no_newline assms l)
  have k: "\<And>i. i < 10 \<Longrightarrow> CHR '','' \<notin> set (metric_labels ! i)"
    using labels_clean by blast
  have "map label_of (metric_rows f1 f2 c b ds) =
    [metric_labels ! 0, metric_labels ! 1, metric_labels ! 2, metric_labels ! 3,
     metric_labels ! 4, metric_labels ! 5, metric_labels ! 6, metric_labels ! 7,
     metric_labels ! 8, metric_labels ! 9]"
    unfolding metric_rows_def by (simp add: label_of_csv_row k)
  then show "map label_of (metric_rows f1 f2 c b ds) = metric_labels"
    by (simp only: labels_list)
qed


lemma first_line_of_csv_buffer:
  "hd (splitlines (csv_buffer f1 f2 c b ds)) = header_line"
proof -
  have "csv_buffer f1 f2 c b ds =
      header_line @ newline # concat (map (\<lambda>line. line @ [newline]) (metric_rows f1 f2 c b ds))"
    by (simp add: csv_buffer_def)
  then have "splitlines (csv_buffer f1 f2 c b ds) =
      header_line # splitlines (concat (map (\<lambda>line. line @ [newline]) (metric_rows f1 f2 c b ds)))"
    using splitlines_line [OF header_no_newline] by simp
  then show ?thesis by simp
qed

lemma example_record:
  "fst (calculate_statistics (\<lambda>_. None) (Some \<lparr>columns = [''AU_GPT''],
             rows = [\<lambda>_. Num (Fin 1), \<lambda>_. Num (Fin 2), \<lambda>_. Num (Fin 3)]\<rparr>) ''AU_GPT'') =
    Some \<lparr>volume = Fin 1275000, tonnage = Fin 3442500, densite = Fin 2.7,
          teneur_moyenne = Fin 2, teneur_min = Fin 1, teneur_max = Fin 3, ecart_type = Fin 1,
          metal_contenu = Fin 6885, recuperation = Fin 91, metal_recuperable = Fin 6265.35\<rparr>"
proof -
  have n: "\<not> contains ''composite'' ''AU_GPT''" by code_simp
  have v: "to_numeric (\<lambda>_. None) (get_column \<lparr>columns = [''AU_GPT''],
             rows = [\<lambda>_. Num (Fin 1), \<lambda>_. Num (Fin 2), \<lambda>_. Num (Fin 3)]\<rparr> ''AU_GPT'') = [Fin 1, Fin 2, Fin 3]"
    by (simp add: to_numeric_def get_column_def coerce_def)
  have s: "series_mean [Fin 1, Fin 2, Fin 3] = Fin 2" "series_min [Fin 1, Fin 2, Fin 3] = Fin 1"
    "series_max [Fin 1, Fin 2, Fin 3] = Fin 3" "series_std [Fin 1, Fin 2, Fin 3] = Fin 1"
    by (simp_all add: series_mean_def series_min_def series_max_def series_std_def dropna_def
        fillna0_def fl_min2_def fl_max2_def fl_square_def fl_sub_def Let_def)
  show ?thesis
    by (subst calculate_statistics_plain [OF _ n v]) (simp_all add: s)
qed

section \<open>Properties\<close>

text \<open>
  C10. \<open>get_diff_class\<close> answers "positive" exactly for a difference greater than zero,
  "negative" exactly for one less than zero and "neutral" in every other case; the
  not-a-number difference is one of those other cases, so it gets the class of an exact
  zero.
\<close>

theorem get_diff_class_cases:
  "(get_diff_class d = ''positive'') = fl_greater d (Fin 0)
   \<and> (get_diff_class d = ''negative'') = fl_less d (Fin 0)
   \<and> (get_diff_class d = ''neutral'') = (\<not> fl_greater d (Fin 0) \<and> \<not> fl_less d (Fin 0))
   \<and> get_diff_class NaN = ''neutral''
   \<and> get_diff_class NaN = get_diff_class (Fin 0)"
  by (cases d) (simp_all add: get_diff_class_def fl_greater_def)

text \<open>
  C1. For the data set whose grade column \<open>AU_GPT\<close> holds exactly 1.0, 2.0 and 3.0,
  \<open>calculate_statistics\<close> returns the record with mean grade 2.0, minimum 1.0, maximum
  3.0, standard deviation 1.0, tonnage 3442500, recovery 91.0, contained metal 6885.0
  and recoverable metal 6265.35 (with volume 1275000 and density 2.7).
\<close>

theorem calculate_statistics_example: "fst (calculate_statistics parse
      (Some \<lparr>columns = [''AU_GPT''],
             rows = [\<lambda>_. Num (Fin 1.0), \<lambda>_. Num (Fin 2.0), \<lambda>_. Num (Fin 3.0)]\<rparr>) ''AU_GPT'') =
  Some \<lparr>volume = Fin 1275000, tonnage = Fin 3442500, densite = Fin 2.7,
        teneur_moyenne = Fin 2.0, teneur_min = Fin 1.0, teneur_max = Fin 3.0, ecart_type = Fin 1.0,
        metal_contenu = Fin 6885.0, recuperation = Fin 91.0, metal_recuperable = Fin 6265.35\<rparr>"
proof -
  have ser: "to_numeric parse (get_column \<lparr>columns = [''AU_GPT''],
             rows = [\<lambda>_. Num (Fin 1), \<lambda>_. Num (Fin 2), \<lambda>_. Num (Fin 3)]\<rparr> ''AU_GPT'')
        = [Fin 1, Fin 2, Fin 3]"
    by (simp add: to_numeric_def get_column_def coerce_def)
  have mean: "series_mean [Fin 1, Fin 2, Fin 3] = Fin 2"
    by (simp add: series_mean_def dropna_def fillna0_def)
  have mn: "series_min [Fin 1, Fin 2, Fin 3] = Fin 1"
    by (simp add: series_min_def dropna_def fl_min2_def)
  have mx: "series_max [Fin 1, Fin 2, Fin 3] = Fin 3"
    by (simp add: series_max_def dropna_def fl_max2_def)
  have sd: "series_std [Fin 1, Fin 2, Fin 3] = Fin 1"
    by (simp add: series_std_def dropna_def fillna0_def fl_square_def fl_sub_def Let_def)
  have comp: "contains ''composite'' ''AU_GPT'' = False"
    by code_simp
  show ?thesis
    by (simp add: calculate_statistics_def Let_def ser mean mn mx sd comp del: contains.simps)
qed

text \<open>
  C2. When the grade column is not among the columns of the data set,
  \<open>calculate_statistics\<close> returns \<open>None\<close>, no record, and leaves the data set as it is.
\<close>

theorem calculate_statistics_missing_column: "grade_column \<notin> set (columns d) \<Longrightarrow>
   calculate_statistics parse (Some d) grade_column = (None, Some d)"
  by (simp add: calculate_statistics_def)

theorem calculate_statistics_missing_column_witness:
  "''AU_GPT'' \<notin> set (columns \<lparr>columns = [''X'', ''Y''], rows = [\<lambda>_. Num (Fin 1)]\<rparr>)
   \<and> calculate_statistics (\<lambda>_. None) (Some \<lparr>columns = [''X'', ''Y''], rows = [\<lambda>_. Num (Fin 1)]\<rparr>) ''AU_GPT''
     = (None, Some \<lparr>columns = [''X'', ''Y''], rows = [\<lambda>_. Num (Fin 1)]\<rparr>)"
  using calculate_statistics_missing_column [of "''AU_GPT''" "\<lparr>columns = [''X'', ''Y''], rows = [\<lambda>_. Num (Fin 1)]\<rparr>" "\<lambda>_. None"]
  by simp

text \<open>
  C4. For a grade column of the data set, the volume, tonnage, density and recovery of
  the returned record are constants chosen only by whether the name of the grade column
  contains "composite": 1250000, 3375000 and 92.5 when it does, 1275000, 3442500 and
  91.0 otherwise, with density 2.7 in both cases. The data set's values play no part.
\<close>

theorem placeholder_constants:
  assumes "grade_column \<in> set (columns d)"
  shows "\<exists>s. fst (calculate_statistics parse (Some d) grade_column) = Some s
     \<and> volume s = (if contains ''composite'' grade_column then Fin 1250000 else Fin 1275000)
     \<and> tonnage s = (if contains ''composite'' grade_column then Fin 3375000 else Fin 3442500)
     \<and> densite s = Fin 2.7
     \<and> recuperation s = (if contains ''composite'' grade_column then Fin 92.5 else Fin 91.0)
     \<and> contains ''composite'' grade_column = (\<exists>p q. grade_column = p @ ''composite'' @ q)"
proof -
  obtain s where s: "calculate_statistics parse (Some d) grade_column =
           (Some s, Some (set_column d grade_column
                      (map Num (to_numeric parse (get_column d grade_column)))))"
    and rest: "volume s = (if contains ''composite'' grade_column then Fin 1250000 else Fin 1275000)"
      "tonnage s = (if contains ''composite'' grade_column then Fin 3375000 else Fin 3442500)"
      "densite s = Fin 2.7"
      "recuperation s = (if contains ''composite'' grade_column then Fin 92.5 else Fin 91.0)"
    using calculate_statistics_present [OF assms, of parse] by blast
  from s have "fst (calculate_statistics parse (Some d) grade_column) = Some s" by simp
  with rest contains_iff [of "''composite''" grade_column] show ?thesis by blast
qed

theorem placeholder_constants_witness:
  "''composite_au'' \<in> set (columns \<lparr>columns = [''composite_au''], rows = [\<lambda>_. Str ''n/a'', \<lambda>_. Num (Fin 7)]\<rparr>)
   \<and> (\<exists>s. fst (calculate_statistics (\<lambda>_. None)
          (Some \<lparr>columns = [''composite_au''], rows = [\<lambda>_. Str ''n/a'', \<lambda>_. Num (Fin 7)]\<rparr>) ''composite_au'') = Some s
     \<and> volume s = Fin 1250000 \<and> tonnage s = Fin 3375000 \<and> densite s = Fin 2.7
     \<and> recuperation s = Fin 92.5)"
proof -
  have comp: "contains ''composite'' ''composite_au'' = True"
    by code_simp
  have mem: "''composite_au'' \<in> set (columns \<lparr>columns = [''composite_au''], rows = [\<lambda>_. Str ''n/a'', \<lambda>_. Num (Fin 7)]\<rparr>)"
    by simp
  show ?thesis
    using mem placeholder_constants [OF mem, of "\<lambda>_. None"] unfolding comp by simp blast
qed

text \<open>
  C9. For a grade column of the data set, \<open>calculate_statistics\<close> leaves the column
  names, the number of rows and every column other than the grade column as they were;
  the grade column itself holds its values coerced to numbers.
\<close>

theorem calculate_statistics_frame:
  assumes "grade_column \<in> set (columns d)"
  shows "\<exists>d'. snd (calculate_statistics parse (Some d) grade_column) = Some d'
     \<and> columns d' = columns d
     \<and> len d' = len d
     \<and> (\<forall>c. c \<noteq> grade_column \<longrightarrow> get_column d' c = get_column d c)
     \<and> get_column d' grade_column = map Num (to_numeric parse (get_column d grade_column))"
proof -
  let ?series = "map Num (to_numeric parse (get_column d grade_column))"
  have n: "length ?series = length (rows d)"
    by (simp add: to_numeric_def get_column_def)
  obtain s where "calculate_statistics parse (Some d) grade_column =
           (Some s, Some (set_column d grade_column ?series))"
    using calculate_statistics_present [OF assms, of parse] by blast
  then have "snd (calculate_statistics parse (Some d) grade_column)
      = Some (set_column d grade_column ?series)"
    by simp
  moreover have "columns (set_column d grade_column ?series) = columns d"
    using assms by (rule columns_set_column)
  moreover have "len (set_column d grade_column ?series) = len d"
    using n by (rule len_set_column)
  moreover have "\<forall>c. c \<noteq> grade_column \<longrightarrow>
      get_column (set_column d grade_column ?series) c = get_column d c"
    using get_column_set_column [OF n] by simp
  moreover have "get_column (set_column d grade_column ?series) grade_column = ?series"
    using get_column_set_column [OF n] by simp
  ultimately show ?thesis by blast
qed

theorem calculate_statistics_frame_witness:
  "''AU'' \<in> set (columns \<lparr>columns = [''ID'', ''AU''], rows = [(\<lambda>_. Str ''a'')(''AU'' := Str ''bad'')]\<rparr>)
   \<and> (\<exists>d'. snd (calculate_statistics (\<lambda>_. None)
          (Some \<lparr>columns = [''ID'', ''AU''], rows = [(\<lambda>_. Str ''a'')(''AU'' := Str ''bad'')]\<rparr>) ''AU'') = Some d'
      \<and> columns d' = [''ID'', ''AU'']
      \<and> get_column d' ''ID'' = [Str ''a'']
      \<and> get_column d' ''AU'' = [Num NaN])"
proof -
  let ?d = "\<lparr>columns = [''ID'', ''AU''], rows = [(\<lambda>_. Str ''a'')(''AU'' := Str ''bad'')]\<rparr>"
  have mem: "''AU'' \<in> set (columns ?d)" by simp
  have ne: "''ID'' \<noteq> ''AU''" by simp
  have g: "get_column ?d ''ID'' = [Str ''a'']"
      "map Num (to_numeric (\<lambda>_. None) (get_column ?d ''AU'')) = [Num NaN]"
    by (simp_all add: get_column_def to_numeric_def coerce_def)
  from calculate_statistics_frame [OF mem, of "\<lambda>_. None"] obtain d' where
    d1: "snd (calculate_statistics (\<lambda>_. None) (Some ?d) ''AU'') = Some d'"
    and d2: "columns d' = columns ?d"
    and d3: "\<forall>c. c \<noteq> ''AU'' \<longrightarrow> get_column d' c = get_column ?d c"
    and d4: "get_column d' ''AU'' = map Num (to_numeric (\<lambda>_. None) (get_column ?d ''AU''))"
    by blast
  from d3 have "''ID'' \<noteq> ''AU'' \<longrightarrow> get_column d' ''ID'' = get_column ?d ''ID''"
    by (rule spec)
  then have "get_column d' ''ID'' = get_column ?d ''ID''" using ne by (rule mp)
  then have d5: "get_column d' ''ID'' = [Str ''a'']" using g(1) by (rule trans)
  from d4 have d6: "get_column d' ''AU'' = [Num NaN]" using g(2) by (rule trans)
  from d2 have d7: "columns d' = [''ID'', ''AU'']" by simp
  from mem d1 d5 d6 d7 show ?thesis by (intro conjI exI [of _ d']) assumption+
qed

text \<open>
  C3. For a non-empty list of column names, each of the four guesses (X, Y, Z, grade)
  returns the first column, in list order, whose lowercased name contains one of the
  keywords of its role (x or east; y or north; z or elev; grade, teneur, au or cu), and
  the first column of the list when no column matches. The guesses for the block model
  are the same. In particular the grade guess over \<open>["foo", "bar"]\<close> is \<open>"foo"\<close>.
\<close>

theorem column_guess_first_match:
  assumes "cols \<noteq> []"
  shows "(\<exists>c. composite_x_col cols = Inr c \<and> spec_mapper_choice [''x'', ''east''] cols c)
    \<and> (\<exists>c. composite_y_col cols = Inr c \<and> spec_mapper_choice [''y'', ''north''] cols c)
    \<and> (\<exists>c. composite_z_col cols = Inr c \<and> spec_mapper_choice [''z'', ''elev''] cols c)
    \<and> (\<exists>c. composite_grade_col cols = Inr c
          \<and> spec_mapper_choice [''grade'', ''teneur'', ''au'', ''cu''] cols c)
    \<and> block_x_col cols = composite_x_col cols
    \<and> block_y_col cols = composite_y_col cols
    \<and> block_z_col cols = composite_z_col cols
    \<and> block_grade_col cols = composite_grade_col cols
    \<and> composite_grade_col [''foo'', ''bar''] = Inr ''foo''"
proof -
  have x: "\<exists>c. composite_x_col cols = Inr c \<and> spec_mapper_choice [''x'', ''east''] cols c"
    unfolding composite_x_col_def
    using assms test_keywords(1) by (rule next_or_first_choice)
  have y: "\<exists>c. composite_y_col cols = Inr c \<and> spec_mapper_choice [''y'', ''north''] cols c"
    unfolding composite_y_col_def
    using assms test_keywords(2) by (rule next_or_first_choice)
  have z: "\<exists>c. composite_z_col cols = Inr c \<and> spec_mapper_choice [''z'', ''elev''] cols c"
    unfolding composite_z_col_def
    using assms test_keywords(3) by (rule next_or_first_choice)
  have g: "\<exists>c. composite_grade_col cols = Inr c
          \<and> spec_mapper_choice [''grade'', ''teneur'', ''au'', ''cu''] cols c"
    unfolding composite_grade_col_def
    using assms test_keywords(4) by (rule next_or_first_choice)
  have b: "block_x_col cols = composite_x_col cols" "block_y_col cols = composite_y_col cols"
    "block_z_col cols = composite_z_col cols" "block_grade_col cols = composite_grade_col cols"
    by (simp_all add: block_x_col_def block_y_col_def block_z_col_def block_grade_col_def
        composite_x_col_def composite_y_col_def composite_z_col_def composite_grade_col_def)
  have foo: "composite_grade_col [''foo'', ''bar''] = Inr ''foo''"
    by code_simp
  from x y z g b foo show ?thesis by (intro conjI)
qed

theorem column_guess_first_match_witness:
  "[''Easting'', ''NORTHING'', ''Elev'', ''Au_gpt''] \<noteq> []
   \<and> composite_x_col [''Easting'', ''NORTHING'', ''Elev'', ''Au_gpt''] = Inr ''Easting''
   \<and> spec_mapper_choice [''x'', ''east''] [''Easting'', ''NORTHING'', ''Elev'', ''Au_gpt''] ''Easting''
   \<and> composite_y_col [''Easting'', ''NORTHING'', ''Elev'', ''Au_gpt''] = Inr ''NORTHING''
   \<and> spec_mapper_choice [''y'', ''north''] [''Easting'', ''NORTHING'', ''Elev'', ''Au_gpt''] ''NORTHING''
   \<and> composite_z_col [''Easting'', ''NORTHING'', ''Elev'', ''Au_gpt''] = Inr ''Elev''
   \<and> spec_mapper_choice [''z'', ''elev''] [''Easting'', ''NORTHING'', ''Elev'', ''Au_gpt''] ''Elev''
   \<and> composite_grade_col [''Easting'', ''NORTHING'', ''Elev'', ''Au_gpt''] = Inr ''Au_gpt''
   \<and> spec_mapper_choice [''grade'', ''teneur'', ''au'', ''cu'']
        [''Easting'', ''NORTHING'', ''Elev'', ''Au_gpt''] ''Au_gpt''"
proof -
  let ?cols = "[''Easting'', ''NORTHING'', ''Elev'', ''Au_gpt'']"
  have ne: "?cols \<noteq> []" by simp
  have x: "composite_x_col ?cols = Inr ''Easting''" by code_simp
  have y: "composite_y_col ?cols = Inr ''NORTHING''" by code_simp
  have z: "composite_z_col ?cols = Inr ''Elev''" by code_simp
  have g: "composite_grade_col ?cols = Inr ''Au_gpt''" by code_simp
  note column_guess_first_match [OF ne]
  then have "spec_mapper_choice [''x'', ''east''] ?cols ''Easting''"
    and "spec_mapper_choice [''y'', ''north''] ?cols ''NORTHING''"
    and "spec_mapper_choice [''z'', ''elev''] ?cols ''Elev''"
    and "spec_mapper_choice [''grade'', ''teneur'', ''au'', ''cu''] ?cols ''Au_gpt''"
    unfolding x y z g by (simp_all only: sum.inject simp_thms ex_simps)
  with ne x y z g show ?thesis by (intro conjI)
qed




text \<open>
  C5. For two records made by \<open>calculate_statistics\<close>, the ten differences are computed
  without an error, and each is \<open>(second / first - 1) * 100\<close> on its field. A first field
  that is not-a-number gives a not-a-number difference. A first field that is a zero
  gives not-a-number when the second field is a zero or not-a-number, and an infinity,
  not not-a-number, for any other second field.
\<close>

theorem comparison_deltas:
  assumes "fst (calculate_statistics parse1 df1 g1) = Some c"
    and "fst (calculate_statistics parse2 df2 g2) = Some b"
  shows "\<exists>ds. differences c b = Inr ds
     \<and> vol_diff ds = pct_diff (volume b) (volume c)
     \<and> ton_diff ds = pct_diff (tonnage b) (tonnage c)
     \<and> den_diff ds = pct_diff (densite b) (densite c)
     \<and> teneur_diff ds = pct_diff (teneur_moyenne b) (teneur_moyenne c)
     \<and> min_diff ds = pct_diff (teneur_min b) (teneur_min c)
     \<and> max_diff ds = pct_diff (teneur_max b) (teneur_max c)
     \<and> std_diff ds = pct_diff (ecart_type b) (ecart_type c)
     \<and> metal_diff ds = pct_diff (metal_contenu b) (metal_contenu c)
     \<and> recup_diff ds = pct_diff (recuperation b) (recuperation c)
     \<and> metal_rec_diff ds = pct_diff (metal_recuperable b) (metal_recuperable c)
     \<and> pct_diff y x = fl_mul (fl_sub (fl_div y x) (Fin 1)) (Fin 100)
     \<and> pct_diff y NaN = NaN
     \<and> (if y = NaN \<or> is_zero y
         then pct_diff y (Fin 0) = NaN \<and> pct_diff y NegZero = NaN
         else is_infinite (pct_diff y (Fin 0)) \<and> is_infinite (pct_diff y NegZero))"
proof -
  from calculated_nonzero [OF assms(1)]
  have nz: "\<not> is_zero (volume c)" "\<not> is_zero (tonnage c)" "\<not> is_zero (densite c)"
    "\<not> is_zero (recuperation c)"
    by simp_all
  have d: "differences c b =
     Inr \<lparr>vol_diff = pct_diff (volume b) (volume c),
          ton_diff = pct_diff (tonnage b) (tonnage c),
          den_diff = pct_diff (densite b) (densite c),
          teneur_diff = pct_diff (teneur_moyenne b) (teneur_moyenne c),
          min_diff = pct_diff (teneur_min b) (teneur_min c),
          max_diff = pct_diff (teneur_max b) (teneur_max c),
          std_diff = pct_diff (ecart_type b) (ecart_type c),
          metal_diff = pct_diff (metal_contenu b) (metal_contenu c),
          recup_diff = pct_diff (recuperation b) (recuperation c),
          metal_rec_diff = pct_diff (metal_recuperable b) (metal_recuperable c)\<rparr>"
    using nz by (rule differences_nonzero)
  have z: "if y = NaN \<or> is_zero y
         then pct_diff y (Fin 0) = NaN \<and> pct_diff y NegZero = NaN
         else is_infinite (pct_diff y (Fin 0)) \<and> is_infinite (pct_diff y NegZero)"
    using pct_diff_zero [of "Fin 0" y] pct_diff_zero [of NegZero y]
    by (simp split: if_splits)
  have f: "pct_diff y x = fl_mul (fl_sub (fl_div y x) (Fin 1)) (Fin 100)"
    by (simp add: pct_diff_def)
  from d z f pct_diff_nan [of y] show ?thesis by simp
qed

theorem comparison_deltas_witness:
  "fst (calculate_statistics (\<lambda>_. None)
      (Some \<lparr>columns = [''AU_GPT''],
             rows = [\<lambda>_. Num (Fin 1), \<lambda>_. Num (Fin 2), \<lambda>_. Num (Fin 3)]\<rparr>) ''AU_GPT'') =
    Some \<lparr>volume = Fin 1275000, tonnage = Fin 3442500, densite = Fin 2.7,
          teneur_moyenne = Fin 2, teneur_min = Fin 1, teneur_max = Fin 3, ecart_type = Fin 1,
          metal_contenu = Fin 6885, recuperation = Fin 91, metal_recuperable = Fin 6265.35\<rparr>
   \<and> fst (calculate_statistics (\<lambda>_. None)
      (Some \<lparr>columns = [''GRADE''],
             rows = [\<lambda>_. Num (Fin 2), \<lambda>_. Num (Fin 3), \<lambda>_. Num (Fin 4)]\<rparr>) ''GRADE'') =
    Some \<lparr>volume = Fin 1275000, tonnage = Fin 3442500, densite = Fin 2.7,
          teneur_moyenne = Fin 3, teneur_min = Fin 2, teneur_max = Fin 4, ecart_type = Fin 1,
          metal_contenu = Fin 10327.5, recuperation = Fin 91,
          metal_recuperable = Fin 9398.025\<rparr>
   \<and> (\<exists>ds. differences
         \<lparr>volume = Fin 1275000, tonnage = Fin 3442500, densite = Fin 2.7,
          teneur_moyenne = Fin 2, teneur_min = Fin 1, teneur_max = Fin 3, ecart_type = Fin 1,
          metal_contenu = Fin 6885, recuperation = Fin 91, metal_recuperable = Fin 6265.35\<rparr>
         \<lparr>volume = Fin 1275000, tonnage = Fin 3442500, densite = Fin 2.7,
          teneur_moyenne = Fin 3, teneur_min = Fin 2, teneur_max = Fin 4, ecart_type = Fin 1,
          metal_contenu = Fin 10327.5, recuperation = Fin 91,
          metal_recuperable = Fin 9398.025\<rparr> = Inr ds
       \<and> vol_diff ds = Fin 0 \<and> teneur_diff ds = Fin 50 \<and> min_diff ds = Fin 100
       \<and> std_diff ds = Fin 0 \<and> metal_diff ds = Fin 50 \<and> recup_diff ds = Fin 0)
   \<and> is_infinite (pct_diff (Fin 1) (Fin 0))
   \<and> is_infinite (pct_diff (Fin 1) NegZero)
   \<and> pct_diff (Fin 1) (Fin 0) = PInf
   \<and> pct_diff (Fin 1) NegZero = NInf"
proof -
  let ?d1 = "\<lparr>columns = [''AU_GPT''],
             rows = [\<lambda>_. Num (Fin 1), \<lambda>_. Num (Fin 2), \<lambda>_. Num (Fin 3)]\<rparr>"
  let ?d2 = "\<lparr>columns = [''GRADE''],
             rows = [\<lambda>_. Num (Fin 2), \<lambda>_. Num (Fin 3), \<lambda>_. Num (Fin 4)]\<rparr>"
  have n1: "\<not> contains ''composite'' ''AU_GPT''" by code_simp
  have n2: "\<not> contains ''composite'' ''GRADE''" by code_simp
  have v1: "to_numeric (\<lambda>_. None) (get_column ?d1 ''AU_GPT'') = [Fin 1, Fin 2, Fin 3]"
    by (simp add: to_numeric_def get_column_def coerce_def)
  have v2: "to_numeric (\<lambda>_. None) (get_column ?d2 ''GRADE'') = [Fin 2, Fin 3, Fin 4]"
    by (simp add: to_numeric_def get_column_def coerce_def)
  have s1: "series_mean [Fin 1, Fin 2, Fin 3] = Fin 2" "series_min [Fin 1, Fin 2, Fin 3] = Fin 1"
    "series_max [Fin 1, Fin 2, Fin 3] = Fin 3" "series_std [Fin 1, Fin 2, Fin 3] = Fin 1"
    by (simp_all add: series_mean_def series_min_def series_max_def series_std_def dropna_def
        fillna0_def fl_min2_def fl_max2_def fl_square_def fl_sub_def Let_def)
  have s2: "series_mean [Fin 2, Fin 3, Fin 4] = Fin 3" "series_min [Fin 2, Fin 3, Fin 4] = Fin 2"
    "series_max [Fin 2, Fin 3, Fin 4] = Fin 4" "series_std [Fin 2, Fin 3, Fin 4] = Fin 1"
    by (simp_all add: series_mean_def series_min_def series_max_def series_std_def dropna_def
        fillna0_def fl_min2_def fl_max2_def fl_square_def fl_sub_def Let_def)
  have c: "fst (calculate_statistics (\<lambda>_. None) (Some ?d1) ''AU_GPT'') =
    Some \<lparr>volume = Fin 1275000, tonnage = Fin 3442500, densite = Fin 2.7,
          teneur_moyenne = Fin 2, teneur_min = Fin 1, teneur_max = Fin 3, ecart_type = Fin 1,
          metal_contenu = Fin 6885, recuperation = Fin 91, metal_recuperable = Fin 6265.35\<rparr>"
    by (subst calculate_statistics_plain [OF _ n1 v1]) (simp_all add: s1)
  have b: "fst (calculate_statistics (\<lambda>_. None) (Some ?d2) ''GRADE'') =
    Some \<lparr>volume = Fin 1275000, tonnage = Fin 3442500, densite = Fin 2.7,
          teneur_moyenne = Fin 3, teneur_min = Fin 2, teneur_max = Fin 4, ecart_type = Fin 1,
          metal_contenu = Fin 10327.5, recuperation = Fin 91,
          metal_recuperable = Fin 9398.025\<rparr>"
    by (subst calculate_statistics_plain [OF _ n2 v2]) (simp_all add: s2)
  from comparison_deltas [OF c b, where y = "Fin 1" and x = "Fin 1"]
  have "is_infinite (pct_diff (Fin 1) (Fin 0)) \<and> is_infinite (pct_diff (Fin 1) NegZero)"
    by clarsimp
  then have inf: "is_infinite (pct_diff (Fin 1) (Fin 0))"
    "is_infinite (pct_diff (Fin 1) NegZero)"
    by simp_all
  have sgn: "pct_diff (Fin 1) (Fin 0) = PInf" "pct_diff (Fin 1) NegZero = NInf"
    by (simp_all add: pct_diff_def fl_sub_def fl_div_def fl_mul_def)
  from comparison_deltas [OF c b] obtain ds where ds: "differences
         \<lparr>volume = Fin 1275000, tonnage = Fin 3442500, densite = Fin 2.7,
          teneur_moyenne = Fin 2, teneur_min = Fin 1, teneur_max = Fin 3, ecart_type = Fin 1,
          metal_contenu = Fin 6885, recuperation = Fin 91, metal_recuperable = Fin 6265.35\<rparr>
         \<lparr>volume = Fin 1275000, tonnage = Fin 3442500, densite = Fin 2.7,
          teneur_moyenne = Fin 3, teneur_min = Fin 2, teneur_max = Fin 4, ecart_type = Fin 1,
          metal_contenu = Fin 10327.5, recuperation = Fin 91,
          metal_recuperable = Fin 9398.025\<rparr> = Inr ds"
    and "vol_diff ds = pct_diff (Fin 1275000) (Fin 1275000)"
    and "teneur_diff ds = pct_diff (Fin 3) (Fin 2)"
    and "min_diff ds = pct_diff (Fin 2) (Fin 1)"
    and "std_diff ds = pct_diff (Fin 1) (Fin 1)"
    and "metal_diff ds = pct_diff (Fin 10327.5) (Fin 6885)"
    and "recup_diff ds = pct_diff (Fin 91) (Fin 91)"
    by auto
  then have "vol_diff ds = Fin 0 \<and> teneur_diff ds = Fin 50 \<and> min_diff ds = Fin 100
       \<and> std_diff ds = Fin 0 \<and> metal_diff ds = Fin 50 \<and> recup_diff ds = Fin 0"
    by (simp add: pct_diff_def fl_sub_def)
  with ds have "\<exists>ds. differences
         \<lparr>volume = Fin 1275000, tonnage = Fin 3442500, densite = Fin 2.7,
          teneur_moyenne = Fin 2, teneur_min = Fin 1, teneur_max = Fin 3, ecart_type = Fin 1,
          metal_contenu = Fin 6885, recuperation = Fin 91, metal_recuperable = Fin 6265.35\<rparr>
         \<lparr>volume = Fin 1275000, tonnage = Fin 3442500, densite = Fin 2.7,
          teneur_moyenne = Fin 3, teneur_min = Fin 2, teneur_max = Fin 4, ecart_type = Fin 1,
          metal_contenu = Fin 10327.5, recuperation = Fin 91,
          metal_recuperable = Fin 9398.025\<rparr> = Inr ds
       \<and> vol_diff ds = Fin 0 \<and> teneur_diff ds = Fin 50 \<and> min_diff ds = Fin 100
       \<and> std_diff ds = Fin 0 \<and> metal_diff ds = Fin 50 \<and> recup_diff ds = Fin 0"
    by (intro exI [of _ ds] conjI) simp_all
  with c b inf sgn show ?thesis by (intro conjI)
qed

text \<open>
  A composite grade column of zeros has mean zero; against a block model of mean 2 the
  difference of the means is plus infinity, which is not the not-a-number value.
\<close>

theorem comparison_deltas_counterexample:
  "map_option teneur_moyenne (fst (calculate_statistics (\<lambda>_. None)
      (Some \<lparr>columns = [''AU''], rows = [\<lambda>_. Num (Fin 0), \<lambda>_. Num (Fin 0)]\<rparr>) ''AU''))
     = Some (Fin 0)
   \<and> map_option teneur_moyenne (fst (calculate_statistics (\<lambda>_. None)
      (Some \<lparr>columns = [''AU''], rows = [\<lambda>_. Num (Fin 1), \<lambda>_. Num (Fin 3)]\<rparr>) ''AU''))
     = Some (Fin 2)
   \<and> map_sum id teneur_diff (differences
        (the (fst (calculate_statistics (\<lambda>_. None)
          (Some \<lparr>columns = [''AU''], rows = [\<lambda>_. Num (Fin 0), \<lambda>_. Num (Fin 0)]\<rparr>) ''AU'')))
        (the (fst (calculate_statistics (\<lambda>_. None)
          (Some \<lparr>columns = [''AU''], rows = [\<lambda>_. Num (Fin 1), \<lambda>_. Num (Fin 3)]\<rparr>) ''AU''))))
     = Inr PInf
   \<and> PInf \<noteq> NaN"
proof -
  let ?d0 = "\<lparr>columns = [''AU''], rows = [\<lambda>_. Num (Fin 0), \<lambda>_. Num (Fin 0)]\<rparr>"
  let ?d2 = "\<lparr>columns = [''AU''], rows = [\<lambda>_. Num (Fin 1), \<lambda>_. Num (Fin 3)]\<rparr>"
  have n: "\<not> contains ''composite'' ''AU''" by code_simp
  have v0: "to_numeric (\<lambda>_. None) (get_column ?d0 ''AU'') = [Fin 0, Fin 0]"
    by (simp add: to_numeric_def get_column_def coerce_def)
  have v2: "to_numeric (\<lambda>_. None) (get_column ?d2 ''AU'') = [Fin 1, Fin 3]"
    by (simp add: to_numeric_def get_column_def coerce_def)
  have m0: "series_mean [Fin 0, Fin 0] = Fin 0" by (simp add: series_mean_def dropna_def fillna0_def)
  have m2: "series_mean [Fin 1, Fin 3] = Fin 2" by (simp add: series_mean_def dropna_def fillna0_def)
  note c = calculate_statistics_plain [OF _ n v0, simplified]
  note b = calculate_statistics_plain [OF _ n v2, simplified]
  show ?thesis
    unfolding c b
    by (simp add: m0 m2 differences_def py_pct_diff_def pct_diff_def fl_sub_def fl_mul_def)
qed

text \<open>
  C7. For every data set and every bound \<open>N\<close>, the sampling step returns the data set
  itself when it has at most \<open>N\<close> rows; otherwise it returns exactly \<open>N\<close> rows, which are
  the rows of the data set at \<open>N\<close> distinct positions, under the same columns. This holds
  for every random source. The program's step is the one with \<open>N = 5000\<close>.
\<close>

theorem sampling_step:
  "(len df \<le> N \<longrightarrow> df_sample_max N rnd df = df)
   \<and> (N < len df \<longrightarrow>
        (\<exists>idx. length idx = N \<and> distinct idx \<and> set idx \<subseteq> {..<len df}
           \<and> rows (df_sample_max N rnd df) = map (\<lambda>i. rows df ! i) idx)
        \<and> len (df_sample_max N rnd df) = N
        \<and> set (rows (df_sample_max N rnd df)) \<subseteq> set (rows df)
        \<and> columns (df_sample_max N rnd df) = columns df)
   \<and> df_sample rnd df = df_sample_max 5000 rnd df"
proof (intro conjI impI)
  assume "len df \<le> N"
  then show "df_sample_max N rnd df = df"
    by (simp add: df_sample_max_def Let_def min_def)
next
  assume big: "N < len df"
  let ?idx = "sample_positions rnd (len df) N"
  have le: "N \<le> len df" using big by simp
  have r: "rows (df_sample_max N rnd df) = map (\<lambda>i. rows df ! i) ?idx"
    using big by (simp add: df_sample_max_def Let_def min_def sample_def)
  have p: "length ?idx = N" "distinct ?idx" "set ?idx \<subseteq> {..<len df}"
    using sample_positions_props [OF le] by blast+
  from p r show "\<exists>idx. length idx = N \<and> distinct idx \<and> set idx \<subseteq> {..<len df}
           \<and> rows (df_sample_max N rnd df) = map (\<lambda>i. rows df ! i) idx"
    by blast
  from r p(1) show "len (df_sample_max N rnd df) = N"
    by (simp add: len_def)
  from p(3) have "\<forall>i \<in> set ?idx. rows df ! i \<in> set (rows df)"
    by (auto simp: len_def)
  with r show "set (rows (df_sample_max N rnd df)) \<subseteq> set (rows df)"
    by auto
  from big show "columns (df_sample_max N rnd df) = columns df"
    by (simp add: df_sample_max_def Let_def min_def sample_def)
next
  show "df_sample rnd df = df_sample_max 5000 rnd df"
    by (simp add: df_sample_def)
qed


theorem sampling_step_witness:
  "len \<lparr>columns = [''AU''], rows = [\<lambda>_. Num (Fin 1)]\<rparr> \<le> 5000
   \<and> df_sample (\<lambda>_. 0) \<lparr>columns = [''AU''], rows = [\<lambda>_. Num (Fin 1)]\<rparr>
       = \<lparr>columns = [''AU''], rows = [\<lambda>_. Num (Fin 1)]\<rparr>
   \<and> 5000 < len \<lparr>columns = [''AU''], rows = replicate 5001 (\<lambda>_. Num (Fin 1))\<rparr>
   \<and> len (df_sample (\<lambda>_. 0) \<lparr>columns = [''AU''], rows = replicate 5001 (\<lambda>_. Num (Fin 1))\<rparr>)
       = 5000
   \<and> 2 < len \<lparr>columns = [''AU''],
               rows = [\<lambda>_. Num (Fin 1), \<lambda>_. Num (Fin 2), \<lambda>_. Num (Fin 3)]\<rparr>
   \<and> len (df_sample_max 2 (\<lambda>_. 0) \<lparr>columns = [''AU''],
               rows = [\<lambda>_. Num (Fin 1), \<lambda>_. Num (Fin 2), \<lambda>_. Num (Fin 3)]\<rparr>) = 2
   \<and> rows (df_sample_max 2 (\<lambda>_. 0) \<lparr>columns = [''AU''],
               rows = [\<lambda>_. Num (Fin 1), \<lambda>_. Num (Fin 2), \<lambda>_. Num (Fin 3)]\<rparr>)
       = [\<lambda>_. Num (Fin 2), \<lambda>_. Num (Fin 3)]"
proof -
  let ?d1 = "\<lparr>columns = [''AU''], rows = [\<lambda>_. Num (Fin 1)]\<rparr>"
  let ?big = "\<lparr>columns = [''AU''], rows = replicate 5001 (\<lambda>_. Num (Fin 1))\<rparr>"
  let ?d3 = "\<lparr>columns = [''AU''],
               rows = [\<lambda>_. Num (Fin 1), \<lambda>_. Num (Fin 2), \<lambda>_. Num (Fin 3)]\<rparr>"
  have l1: "len ?d1 \<le> 5000" by (simp add: len_def)
  have l2: "5000 < len ?big" by (simp add: len_def)
  have l3: "2 < len ?d3" by (simp add: len_def)
  have a: "df_sample (\<lambda>_. 0) ?d1 = ?d1"
    using sampling_step [of ?d1 5000 "\<lambda>_. 0"] l1 by simp
  have b: "len (df_sample (\<lambda>_. 0) ?big) = 5000"
    using sampling_step [of ?big 5000 "\<lambda>_. 0"] l2 by simp
  have c: "len (df_sample_max 2 (\<lambda>_. 0) ?d3) = 2"
    using sampling_step [of ?d3 2 "\<lambda>_. 0"] l3 by simp
  have pos: "sample_positions (\<lambda>_. 0) (Suc (Suc (Suc 0))) (Suc (Suc 0)) = [1, 2]"
    by code_simp
  have d: "rows (df_sample_max 2 (\<lambda>_. 0) ?d3) = [\<lambda>_. Num (Fin 2), \<lambda>_. Num (Fin 3)]"
    by (simp add: df_sample_max_def Let_def sample_def len_def pos)
  from l1 a l2 b l3 c d show ?thesis by (intro conjI)
qed

text \<open>
  C8. For two records made by \<open>calculate_statistics\<close> (and number formats that never
  write a newline), the comparison report is produced, its first line is the header
  \<open>header_line\<close>, in French as the program writes it, and exactly ten metric rows
  follow, whose labels are, in this order, those of \<open>metric_labels\<close>: total volume,
  estimated tonnage, mean density, mean grade, minimum grade, maximum grade, standard
  deviation, contained metal, estimated recovery, recoverable metal.
\<close>

theorem comparison_report_layout:
  assumes "fst (calculate_statistics parse1 df1 g1) = Some c"
    and "fst (calculate_statistics parse2 df2 g2) = Some b"
    and "\<And>v. newline \<notin> set (f1 v)" and "\<And>v. newline \<notin> set (f2 v)"
  shows "\<exists>ds text lines. differences c b = Inr ds
     \<and> comparison_report f1 f2 c b = Inr text
     \<and> splitlines text = header_line # lines
     \<and> lines = metric_rows f1 f2 c b ds
     \<and> length lines = 10
     \<and> map label_of lines = metric_labels"
proof -
  from calculated_nonzero [OF assms(1)]
  have nz: "\<not> is_zero (volume c)" "\<not> is_zero (tonnage c)" "\<not> is_zero (densite c)"
    "\<not> is_zero (recuperation c)"
    by simp_all
  obtain ds where ds: "differences c b = Inr ds"
    using differences_nonzero [OF nz, of b] by blast
  let ?lines = "metric_rows f1 f2 c b ds"
  have rep: "comparison_report f1 f2 c b = Inr (csv_buffer f1 f2 c b ds)"
    using ds by (simp add: comparison_report_def)
  note p = metric_rows_props [of f1 f2 c b ds, OF assms(3) assms(4)]
  have "\<forall>l \<in> set (header_line # ?lines). newline \<notin> set l"
    using header_no_newline p(2) by simp
  then have "splitlines (concat (map (\<lambda>line. line @ [newline]) (header_line # ?lines)))
      = header_line # ?lines"
    by (rule splitlines_concat)
  then have sp: "splitlines (csv_buffer f1 f2 c b ds) = header_line # ?lines"
    by (simp only: csv_buffer_def)
  from ds rep sp p(1) p(3) show ?thesis by blast
qed

theorem comparison_report_layout_witness:
  "fst (calculate_statistics (\<lambda>_. None) (Some \<lparr>columns = [''AU_GPT''],
             rows = [\<lambda>_. Num (Fin 1), \<lambda>_. Num (Fin 2), \<lambda>_. Num (Fin 3)]\<rparr>) ''AU_GPT'') =
    Some \<lparr>volume = Fin 1275000, tonnage = Fin 3442500, densite = Fin 2.7,
          teneur_moyenne = Fin 2, teneur_min = Fin 1, teneur_max = Fin 3, ecart_type = Fin 1,
          metal_contenu = Fin 6885, recuperation = Fin 91, metal_recuperable = Fin 6265.35\<rparr>
   \<and> newline \<notin> set ''0.0''
   \<and> (\<exists>text lines.
        comparison_report (\<lambda>_. ''0.0'') (\<lambda>_. ''0.0'')
          \<lparr>volume = Fin 1275000, tonnage = Fin 3442500, densite = Fin 2.7,
          teneur_moyenne = Fin 2, teneur_min = Fin 1, teneur_max = Fin 3, ecart_type = Fin 1,
          metal_contenu = Fin 6885, recuperation = Fin 91, metal_recuperable = Fin 6265.35\<rparr>
          \<lparr>volume = Fin 1275000, tonnage = Fin 3442500, densite = Fin 2.7,
          teneur_moyenne = Fin 2, teneur_min = Fin 1, teneur_max = Fin 3, ecart_type = Fin 1,
          metal_contenu = Fin 6885, recuperation = Fin 91, metal_recuperable = Fin 6265.35\<rparr> = Inr text
      \<and> splitlines text = header_line # lines
      \<and> length lines = 10
      \<and> map label_of lines = metric_labels)"
proof -
  have nl: "newline \<notin> set ''0.0''" by (simp add: newline_def)
  from comparison_report_layout [OF example_record example_record, of "\<lambda>_. ''0.0''" "\<lambda>_. ''0.0''", OF nl nl]
  have "\<exists>text lines.
        comparison_report (\<lambda>_. ''0.0'') (\<lambda>_. ''0.0'')
          \<lparr>volume = Fin 1275000, tonnage = Fin 3442500, densite = Fin 2.7,
          teneur_moyenne = Fin 2, teneur_min = Fin 1, teneur_max = Fin 3, ecart_type = Fin 1,
          metal_contenu = Fin 6885, recuperation = Fin 91, metal_recuperable = Fin 6265.35\<rparr>
          \<lparr>volume = Fin 1275000, tonnage = Fin 3442500, densite = Fin 2.7,
          teneur_moyenne = Fin 2, teneur_min = Fin 1, teneur_max = Fin 3, ecart_type = Fin 1,
          metal_contenu = Fin 6885, recuperation = Fin 91, metal_recuperable = Fin 6265.35\<rparr> = Inr text
      \<and> splitlines text = header_line # lines
      \<and> length lines = 10
      \<and> map label_of lines = metric_labels"
    by blast
  with example_record nl show ?thesis by (intro conjI)
qed

text \<open>
  The first line of the report is the French header, not the English text
  \<open>Metric,Composite 3D,Block Model,Difference (%)\<close>.
\<close>

theorem comparison_report_layout_counterexample:
  "fst (calculate_statistics (\<lambda>_. None) (Some \<lparr>columns = [''AU_GPT''],
             rows = [\<lambda>_. Num (Fin 1), \<lambda>_. Num (Fin 2), \<lambda>_. Num (Fin 3)]\<rparr>) ''AU_GPT'') =
    Some \<lparr>volume = Fin 1275000, tonnage = Fin 3442500, densite = Fin 2.7,
          teneur_moyenne = Fin 2, teneur_min = Fin 1, teneur_max = Fin 3, ecart_type = Fin 1,
          metal_contenu = Fin 6885, recuperation = Fin 91, metal_recuperable = Fin 6265.35\<rparr>
   \<and> map_sum id (hd \<circ> splitlines)
       (comparison_report (\<lambda>_. ''0.0'') (\<lambda>_. ''0.0'')
          \<lparr>volume = Fin 1275000, tonnage = Fin 3442500, densite = Fin 2.7,
          teneur_moyenne = Fin 2, teneur_min = Fin 1, teneur_max = Fin 3, ecart_type = Fin 1,
          metal_contenu = Fin 6885, recuperation = Fin 91, metal_recuperable = Fin 6265.35\<rparr>
          \<lparr>volume = Fin 1275000, tonnage = Fin 3442500, densite = Fin 2.7,
          teneur_moyenne = Fin 2, teneur_min = Fin 1, teneur_max = Fin 3, ecart_type = Fin 1,
          metal_contenu = Fin 6885, recuperation = Fin 91, metal_recuperable = Fin 6265.35\<rparr>) = Inr header_line
   \<and> header_line \<noteq> ''Metric,Composite 3D,Block Model,Difference (%)''"
proof -
  let ?c = "\<lparr>volume = Fin 1275000, tonnage = Fin 3442500, densite = Fin 2.7,
          teneur_moyenne = Fin 2, teneur_min = Fin 1, teneur_max = Fin 3, ecart_type = Fin 1,
          metal_contenu = Fin 6885, recuperation = Fin 91, metal_recuperable = Fin 6265.35\<rparr>"
  have "differences ?c ?c = Inr \<lparr>vol_diff = pct_diff (volume ?c) (volume ?c),
          ton_diff = pct_diff (tonnage ?c) (tonnage ?c),
          den_diff = pct_diff (densite ?c) (densite ?c),
          teneur_diff = pct_diff (teneur_moyenne ?c) (teneur_moyenne ?c),
          min_diff = pct_diff (teneur_min ?c) (teneur_min ?c),
          max_diff = pct_diff (teneur_max ?c) (teneur_max ?c),
          std_diff = pct_diff (ecart_type ?c) (ecart_type ?c),
          metal_diff = pct_diff (metal_contenu ?c) (metal_contenu ?c),
          recup_diff = pct_diff (recuperation ?c) (recuperation ?c),
          metal_rec_diff = pct_diff (metal_recuperable ?c) (metal_recuperable ?c)\<rparr>"
    by (rule differences_nonzero) simp_all
  then have "map_sum id (hd \<circ> splitlines)
       (comparison_report (\<lambda>_. ''0.0'') (\<lambda>_. ''0.0'') ?c ?c) = Inr header_line"
    by (simp add: comparison_report_def first_line_of_csv_buffer)
  moreover have "header_line \<noteq> ''Metric,Composite 3D,Block Model,Difference (%)''"
    by (simp add: header_line_def)
  ultimately show ?thesis using example_record by (intro conjI)
qed

end
